theory Spec2Isabelle
  imports Complex_Main "HOL-Library.Sublist"
begin

section \<open>The LDA grid-search wrapper of \<open>LDA_with_Grid.py\<close>\<close>

text \<open>
  The class \<open>LDA\<close> drives gensim, pyLDAvis and pandas. Those libraries are not part of
  the repository: they enter the model as the fields of a record of functions, one per
  library call the class makes. The corpus, the dictionary and the texts are stored by
  \<open>__init__\<close>, never changed, and only ever handed to the library, so the library
  functions are taken as already applied to them. Library calls are total here, with one
  exception: the constructor of the dynamic model may reject its arguments, and the
  exception it raises is a result of the call. Other failures inside the library, and
  failures of the operating system, are outside this development. Printing to standard
  output is not modelled; files and directories are.

  Python floats are modelled as \<open>real\<close> (the class only compares them), Python ints as
  \<open>int\<close>, counters that start at zero and only grow as \<open>nat\<close>.
\<close>

subsection \<open>Data\<close>

text \<open>The exceptions the class raises, by Python class, with their message.\<close>

datatype error =
    Exception string
  | ValueError string
  | TypeError string
  | IndexError string

text \<open>One entry of \<open>self.scores\<close>: the dictionary appended per grid cell.\<close>

record 'p trial =
  n_topics :: int
  alpha :: 'p
  beta :: 'p
  coherence_score :: real
  perplexity_score :: real

text \<open>
  The attributes of an \<open>LDA\<close> object. An item of \<open>dates\<close> is a sequence whose first
  component is the year (\<open>item[0]\<close>); it is a pair here. \<open>None\<close> in \<open>scores\<close> stands for
  the attribute not existing yet: \<open>__init__\<close> does not create it.
\<close>

record ('r, 'p, 'm) lda =
  dates :: "(int \<times> 'r) list"
  simple_model :: "'m option"
  best_params :: "(int \<times> 'p \<times> 'p) option"
  best_score :: real
  best_model :: "'m option"
  time_slice :: "nat list option"
  scores :: "'p trial list option"

text \<open>
  The library: \<open>LdaModel n alpha beta\<close> is \<open>gensim.models.LdaModel\<close> with the fixed
  keyword arguments of the class (\<open>random_state = 66\<close>, \<open>passes = 10\<close>, ...),
  \<open>get_coherence m\<close> is \<open>CoherenceModel(model = m, ..., coherence = 'c_v').get_coherence()\<close>,
  \<open>log_perplexity m\<close> is \<open>m.log_perplexity(self.corpus)\<close>, \<open>print_topics m\<close> is
  \<open>m.print_topics()\<close>, \<open>LdaSeqModel ts n alpha m\<close> is the constructor call of \<open>DTM\<close>
  (an error when gensim rejects the arguments, as it does for \<open>time_slice = None\<close>),
  \<open>print_topic_times q topic k\<close> is \<open>q.print_topic_times(topic = topic, top_terms = k)\<close>,
  \<open>pandas_frame\<close> is the table that the pandas calls of the local helper \<open>topic_time\<close>
  compute when they all succeed, \<open>prepare m\<close> is
  \<open>gensimvis.prepare(m, self.corpus, self.dictionary)\<close>, and \<open>str\<close> is Python's rendering
  of an integer inside an f-string.
\<close>

record ('p, 'm, 'q, 'v, 'f) library =
  LdaModel :: "int \<Rightarrow> 'p \<Rightarrow> 'p \<Rightarrow> 'm"
  get_coherence :: "'m \<Rightarrow> real"
  log_perplexity :: "'m \<Rightarrow> real"
  print_topics :: "'m \<Rightarrow> (int \<times> string) list"
  LdaSeqModel :: "nat list option \<Rightarrow> int \<Rightarrow> 'p \<Rightarrow> 'm option \<Rightarrow> error + 'q"
  print_topic_times :: "'q \<Rightarrow> int \<Rightarrow> nat \<Rightarrow> (string \<times> real) list list"
  pandas_frame :: "(string \<times> real) list list \<Rightarrow> string list \<Rightarrow> 'f"
  prepare :: "'m \<Rightarrow> 'v"
  str :: "int \<Rightarrow> string"

text \<open>
  What a file holds: a saved model, the table of \<open>self.scores\<close>, a topic table (header
  row and rows), a data frame of \<open>DTM\<close>, or the HTML of a visualisation.
\<close>

datatype ('p, 'm, 'q, 'v, 'f) artifact =
    ModelFile 'm
  | SeqModelFile 'q
  | ScoresCsv "'p trial list"
  | TopicsCsv "string list" "(int \<times> string) list"
  | FrameCsv 'f
  | Html 'v

text \<open>
  The file system: the directories that exist and the files with what they hold. A path
  is the list of its components; \<open>os.path.join\<close> is list construction.
\<close>

record ('p, 'm, 'q, 'v, 'f) filesystem =
  dirs :: "string list set"
  files :: "string list \<rightharpoonup> ('p, 'm, 'q, 'v, 'f) artifact"

definition path_exists ::
  "('p, 'm, 'q, 'v, 'f) filesystem \<Rightarrow> string list \<Rightarrow> bool" where
  "path_exists fs p \<longleftrightarrow> p \<in> dirs fs \<or> files fs p \<noteq> None"

definition makedirs ::
  "string list \<Rightarrow> ('p, 'm, 'q, 'v, 'f) filesystem \<Rightarrow> ('p, 'm, 'q, 'v, 'f) filesystem" where
  "makedirs p fs = fs\<lparr>dirs := dirs fs \<union> set (tl (prefixes p))\<rparr>"

text \<open>The recurring \<open>if not os.path.exists(d): os.makedirs(d)\<close>.\<close>

definition ensure_dir ::
  "string list \<Rightarrow> ('p, 'm, 'q, 'v, 'f) filesystem \<Rightarrow> ('p, 'm, 'q, 'v, 'f) filesystem" where
  "ensure_dir d fs = (if \<not> path_exists fs d then makedirs d fs else fs)"

definition write_file ::
  "string list \<Rightarrow> ('p, 'm, 'q, 'v, 'f) artifact \<Rightarrow> ('p, 'm, 'q, 'v, 'f) filesystem
     \<Rightarrow> ('p, 'm, 'q, 'v, 'f) filesystem" where
  "write_file p a fs = fs\<lparr>files := (files fs)(p \<mapsto> a)\<rparr>"

subsection \<open>\<open>__init__\<close> and \<open>get_coherence_score\<close>\<close>

definition LDA_init :: "(int \<times> 'r) list \<Rightarrow> ('r, 'p, 'm) lda" where
  "LDA_init ds =
     \<lparr>dates = ds, simple_model = None, best_params = None, best_score = - 1,
      best_model = None, time_slice = None, scores = None\<rparr>"

definition get_coherence_score ::
  "('p, 'm, 'q, 'v, 'f) library \<Rightarrow> int \<Rightarrow> 'p \<Rightarrow> 'p \<Rightarrow> real \<times> 'm" where
  "get_coherence_score lib n a b =
     (let m = LdaModel lib n a b in (get_coherence lib m, m))"

subsection \<open>\<open>simple_fit\<close>\<close>

definition simple_fit ::
  "('p, 'm, 'q, 'v, 'f) library \<Rightarrow> ('r, 'p, 'm) lda \<Rightarrow> ('p, 'm, 'q, 'v, 'f) filesystem
     \<Rightarrow> int \<Rightarrow> 'p \<Rightarrow> 'p \<Rightarrow> 'm \<times> ('r, 'p, 'm) lda \<times> ('p, 'm, 'q, 'v, 'f) filesystem" where
  "simple_fit lib st fs n_top alpha_val beta_val =
     (let model = LdaModel lib n_top alpha_val beta_val;
          topics = print_topics lib model;
          fs1 = ensure_dir [''Topics_CSVs''] fs;
          fs2 = write_file [''Topics_CSVs'', ''Topics_from_simple_model.csv'']
                  (TopicsCsv [''Topic N'', ''Words''] topics) fs1;
          fs3 = ensure_dir [''LDAModels_Gensim''] fs2;
          fs4 = write_file [''LDAModels_Gensim'', ''MSc_LDA_simple.gensim'']
                  (ModelFile model) fs3
      in (model, st\<lparr>simple_model := Some model\<rparr>, fs4))"

subsection \<open>\<open>grid_search\<close>\<close>

text \<open>
  The body of the innermost loop: fit, append the record to \<open>self.scores\<close>, then replace
  the best trial when the coherence is strictly greater than \<open>self.best_score\<close>.
\<close>

definition grid_cell ::
  "('p, 'm, 'q, 'v, 'f) library \<Rightarrow> int \<Rightarrow> 'p \<Rightarrow> 'p \<Rightarrow> ('r, 'p, 'm) lda \<Rightarrow> ('r, 'p, 'm) lda" where
  "grid_cell lib n a b st =
     (let (coherence, model) = get_coherence_score lib n a b;
          perplexity = log_perplexity lib model;
          st1 = st\<lparr>scores := map_option (\<lambda>entries. entries @
                  [\<lparr>n_topics = n, alpha = a, beta = b, coherence_score = coherence,
                    perplexity_score = perplexity\<rparr>]) (scores st)\<rparr>
      in if coherence > best_score st1
         then st1\<lparr>best_score := coherence, best_params := Some (n, a, b),
                  best_model := Some model\<rparr>
         else st1)"

text \<open>
  The method: \<open>self.scores\<close> is set to the empty list, the three loops run with
  \<open>n_topics\<close> outermost and \<open>betas\<close> innermost, and the log is written as a table.
\<close>

definition grid_search ::
  "('p, 'm, 'q, 'v, 'f) library \<Rightarrow> ('r, 'p, 'm) lda \<Rightarrow> ('p, 'm, 'q, 'v, 'f) filesystem
     \<Rightarrow> int list \<Rightarrow> 'p list \<Rightarrow> 'p list \<Rightarrow> ('r, 'p, 'm) lda \<times> ('p, 'm, 'q, 'v, 'f) filesystem" where
  "grid_search lib st fs ns alphas betas =
     (let st0 = st\<lparr>scores := Some []\<rparr>;
          st1 = fold (\<lambda>n. fold (\<lambda>a. fold (\<lambda>b. grid_cell lib n a b) betas) alphas) ns st0;
          fs1 = ensure_dir [''Topics_CSVs''] fs;
          fs2 = write_file [''Topics_CSVs'', ''scores_from_search.csv'']
                  (ScoresCsv (case scores st1 of None \<Rightarrow> [] | Some entries \<Rightarrow> entries)) fs1
      in (st1, fs2))"


text \<open>
  The specification's view of a search, to compare with the loops: the trial record of
  one cell, and the Cartesian product of the axes with the topic counts outermost.
\<close>

definition trial_of :: "('p, 'm, 'q, 'v, 'f) library \<Rightarrow> int \<Rightarrow> 'p \<Rightarrow> 'p \<Rightarrow> 'p trial" where
  "trial_of lib n a b =
     \<lparr>n_topics = n, alpha = a, beta = b,
      coherence_score = get_coherence lib (LdaModel lib n a b),
      perplexity_score = log_perplexity lib (LdaModel lib n a b)\<rparr>"

definition spec_trials ::
  "('p, 'm, 'q, 'v, 'f) library \<Rightarrow> int list \<Rightarrow> 'p list \<Rightarrow> 'p list \<Rightarrow> 'p trial list" where
  "spec_trials lib ns alphas betas =
     concat (map (\<lambda>n. concat (map (\<lambda>a. map (\<lambda>b. trial_of lib n a b) betas) alphas)) ns)"

subsection \<open>\<open>build_best_model\<close>\<close>

text \<open>
  \<open>if self.best_params:\<close> tests truthiness: \<open>None\<close> is false, and a tuple of three
  components is true whatever it holds.
\<close>

definition build_best_model ::
  "('p, 'm, 'q, 'v, 'f) library \<Rightarrow> ('r, 'p, 'm) lda \<Rightarrow> ('p, 'm, 'q, 'v, 'f) filesystem
     \<Rightarrow> (error + 'm) \<times> ('r, 'p, 'm) lda \<times> ('p, 'm, 'q, 'v, 'f) filesystem" where
  "build_best_model lib st fs =
     (case best_params st of
        Some (n, a, b) \<Rightarrow>
          (let (_, model) = get_coherence_score lib n a b;
               fs1 = ensure_dir [''LDAModels_Gensim''] fs;
               fs2 = write_file [''LDAModels_Gensim'', ''Grid_Best_MSc_LDA.gensim'']
                       (ModelFile model) fs1;
               topics = print_topics lib model;
               fs3 = ensure_dir [''Topics_CSVs''] fs2;
               fs4 = write_file [''Topics_CSVs'', ''best_topics.csv'']
                       (TopicsCsv [''Topic N'', ''Keywords''] topics) fs3
           in (Inr model, st, fs4))
      | None \<Rightarrow>
          (Inl (Exception
             ''No parameters found for the best model. Make sure you have run the grid search already.''),
           st, fs))"

subsection \<open>\<open>viz\<close>\<close>

definition viz ::
  "('p, 'm, 'q, 'v, 'f) library \<Rightarrow> ('r, 'p, 'm) lda \<Rightarrow> ('p, 'm, 'q, 'v, 'f) filesystem
     \<Rightarrow> string \<Rightarrow> (error + 'v) \<times> ('r, 'p, 'm) lda \<times> ('p, 'm, 'q, 'v, 'f) filesystem" where
  "viz lib st fs model_type =
     (let chosen =
            (if model_type = ''best'' then
               (case best_model st of
                  None \<Rightarrow> Inl (Exception ''No best model found. Run grid_search first.'')
                | Some model \<Rightarrow> Inr model)
             else if model_type = ''simple'' then
               (case simple_model st of
                  None \<Rightarrow> Inl (Exception ''No simple model found. Run simple_fit() first.'')
                | Some model \<Rightarrow> Inr model)
             else Inl (ValueError
                    ''Model type not valid. Please select either \"best\" or \"simple\".''))
      in case chosen of
           Inl e \<Rightarrow> (Inl e, st, fs)
         | Inr model \<Rightarrow>
             (let vis = prepare lib model;
                  fs1 = ensure_dir [''Plots''] fs;
                  fs2 = write_file [''Plots'', ''lda_'' @ model_type @ ''_viz.html''] (Html vis) fs1
              in (Inr vis, st, fs2)))"

subsection \<open>\<open>time_slicer\<close>\<close>

text \<open>
  \<open>year_counts\<close> is a dictionary in insertion order, an association list here: a year
  already present has its count raised in place, a new year is added at the end.
\<close>

fun count_year :: "int \<Rightarrow> (int \<times> nat) list \<Rightarrow> (int \<times> nat) list" where
  "count_year year [] = [(year, 1)]"
| "count_year year ((k, v) # kvs) =
     (if k = year then (k, v + 1) # kvs else (k, v) # count_year year kvs)"

definition year_counts_of :: "(int \<times> 'r) list \<Rightarrow> (int \<times> nat) list" where
  "year_counts_of ds = fold (\<lambda>item yc. count_year (fst item) yc) ds []"

text \<open>
  \<open>batches_counts\<close> has the keys \<open>0, ..., len(year_batches) - 1\<close>, added in that order,
  so it is the list of its values. The inner loop goes through every batch, with no
  \<open>break\<close>. The years are Python ints here, on which \<open>int(key)\<close> is the identity.
\<close>

definition add_year ::
  "int list list \<Rightarrow> int \<times> nat \<Rightarrow> nat list \<Rightarrow> nat list" where
  "add_year year_batches kv batches_counts =
     fold (\<lambda>(index, batch) bc.
             if fst kv \<in> set batch then bc[index := bc ! index + snd kv] else bc)
       (enumerate 0 year_batches) batches_counts"

definition time_slicer ::
  "('r, 'p, 'm) lda \<Rightarrow> int list list \<Rightarrow> nat list \<times> ('r, 'p, 'm) lda" where
  "time_slicer st year_batches =
     (let year_counts = year_counts_of (dates st);
          batches_counts = map (\<lambda>(index, year_batch). 0) (enumerate 0 year_batches);
          ts = fold (add_year year_batches) year_counts batches_counts
      in (ts, st\<lparr>time_slice := Some ts\<rparr>))"

subsection \<open>\<open>DTM\<close>\<close>

text \<open>
  \<open>period[0]\<close> and \<open>period[-1]\<close> raise \<open>IndexError\<close> on an empty batch; the list
  comprehension stops at the first batch that does.
\<close>

fun time_periods :: "(int \<Rightarrow> string) \<Rightarrow> int list list \<Rightarrow> error + string list" where
  "time_periods s [] = Inr []"
| "time_periods s ([] # periods) = Inl (IndexError ''list index out of range'')"
| "time_periods s ((y # ys) # periods) =
     (case time_periods s periods of
        Inl e \<Rightarrow> Inl e
      | Inr labels \<Rightarrow> Inr ((s y @ ''-'' @ s (last (y # ys))) # labels))"

text \<open>
  The local helper \<open>topic_time\<close>: one data frame per period, the frames concatenated,
  grouped by word and summed, and the period labels assigned as column names. The result
  has one column per period. \<open>pd.concat\<close> raises \<open>ValueError\<close> on an empty list of
  frames, and the assignment of the column names raises \<open>ValueError\<close> when there are
  not as many labels as columns (the messages are shortened here).
\<close>

definition topic_time ::
  "('p, 'm, 'q, 'v, 'f) library \<Rightarrow> (string \<times> real) list list \<Rightarrow> string list \<Rightarrow> error + 'f" where
  "topic_time lib DTM_topic periods =
     (if DTM_topic = [] then Inl (ValueError ''No objects to concatenate'')
      else if length periods \<noteq> length DTM_topic then Inl (ValueError ''Length mismatch'')
      else Inr (pandas_frame lib DTM_topic periods))"

text \<open>The loop that calls \<open>topic_time\<close> on every topic stops at the first exception.\<close>

fun topic_frames ::
  "('p, 'm, 'q, 'v, 'f) library \<Rightarrow> (string \<times> real) list list list \<Rightarrow> string list
     \<Rightarrow> error + 'f list" where
  "topic_frames lib [] periods = Inr []"
| "topic_frames lib (topic # topics) periods =
     (case topic_time lib topic periods of
        Inl e \<Rightarrow> Inl e
      | Inr df \<Rightarrow>
          (case topic_frames lib topics periods of
             Inl e \<Rightarrow> Inl e
           | Inr dfs \<Rightarrow> Inr (df # dfs)))"

text \<open>The last loop of \<open>DTM\<close>: one file per topic, numbered from 1.\<close>

definition write_topics ::
  "(int \<Rightarrow> string) \<Rightarrow> 'f list \<Rightarrow> ('p, 'm, 'q, 'v, 'f) filesystem
     \<Rightarrow> ('p, 'm, 'q, 'v, 'f) filesystem" where
  "write_topics s frames fs =
     fold (\<lambda>(i, df). write_file
             [''Topics_CSVs'', ''topics_words_time'',
              ''topic'' @ s (int i + 1) @ ''_words_time.csv''] (FrameCsv df))
       (enumerate 0 frames) fs"

text \<open>
  \<open>DTM\<close> has no guard of its own. The first thing it evaluates that depends on the
  search is \<open>self.best_params[0]\<close>, an argument of the \<open>LdaSeqModel\<close> call: on \<open>None\<close>
  Python raises \<open>TypeError\<close> there, before the call is made (its message is given
  here without the quotation marks around the type name). An exception of the
  constructor comes before anything is written; one of \<open>period[0]\<close> or of
  \<open>topic_time\<close> comes after the model was saved and before the topic files. The
  method has no \<open>return\<close> statement.
\<close>

definition DTM ::
  "('p, 'm, 'q, 'v, 'f) library \<Rightarrow> ('r, 'p, 'm) lda \<Rightarrow> ('p, 'm, 'q, 'v, 'f) filesystem
     \<Rightarrow> int list list \<Rightarrow> (error + unit) \<times> ('r, 'p, 'm) lda \<times> ('p, 'm, 'q, 'v, 'f) filesystem" where
  "DTM lib st fs year_batches =
     (case best_params st of
        None \<Rightarrow> (Inl (TypeError ''NoneType object is not subscriptable''), st, fs)
      | Some (n, a, b) \<Rightarrow>
          (case LdaSeqModel lib (time_slice st) n a (best_model st) of
             Inl e \<Rightarrow> (Inl e, st, fs)
           | Inr seq_m \<Rightarrow>
               (let fs1 = ensure_dir [''LDAModels_Gensim''] fs;
                    fs2 = write_file [''LDAModels_Gensim'', ''DTM_model.gensim'']
                            (SeqModelFile seq_m) fs1;
                    DTM_topics = map (\<lambda>topic. print_topic_times lib seq_m topic 30) [0..n - 1]
                in case time_periods (str lib) year_batches of
                     Inl e \<Rightarrow> (Inl e, st, fs2)
                   | Inr periods \<Rightarrow>
                       (case topic_frames lib DTM_topics periods of
                          Inl e \<Rightarrow> (Inl e, st, fs2)
                        | Inr topics_words_time \<Rightarrow>
                            (let fs3 = ensure_dir [''Topics_CSVs'', ''topics_words_time''] fs2;
                                 fs4 = write_topics (str lib) topics_words_time fs3
                             in (Inr (), st, fs4))))))"

subsection \<open>The trial records of a series of searches\<close>


subsection \<open>Notions used in the proofs\<close>

text \<open>The cells of a grid in the order of the three loops.\<close>

definition cells :: "int list \<Rightarrow> 'p list \<Rightarrow> 'p list \<Rightarrow> (int \<times> 'p \<times> 'p) list" where
  "cells ns alphas betas =
     concat (map (\<lambda>n. concat (map (\<lambda>a. map (\<lambda>b. (n, a, b)) betas) alphas)) ns)"

definition coherence_of :: "('p, 'm, 'q, 'v, 'f) library \<Rightarrow> int \<times> 'p \<times> 'p \<Rightarrow> real" where
  "coherence_of lib c = (case c of (n, a, b) \<Rightarrow> get_coherence lib (LdaModel lib n a b))"

text \<open>The three best-trial attributes of an object, and what one cell does to them.\<close>

definition best_of :: "('r, 'p, 'm) lda \<Rightarrow> real \<times> (int \<times> 'p \<times> 'p) option \<times> 'm option" where
  "best_of st = (best_score st, best_params st, best_model st)"

fun best_step ::
  "('p, 'm, 'q, 'v, 'f) library \<Rightarrow> int \<times> 'p \<times> 'p
     \<Rightarrow> real \<times> (int \<times> 'p \<times> 'p) option \<times> 'm option
     \<Rightarrow> real \<times> (int \<times> 'p \<times> 'p) option \<times> 'm option" where
  "best_step lib (n, a, b) (s, p, m) =
     (if get_coherence lib (LdaModel lib n a b) > s
      then (get_coherence lib (LdaModel lib n a b), Some (n, a, b), Some (LdaModel lib n a b))
      else (s, p, m))"

text \<open>The documents a year-count list accounts for, among the years satisfying \<open>P\<close>.\<close>

definition weight :: "(int \<Rightarrow> bool) \<Rightarrow> (int \<times> nat) list \<Rightarrow> nat" where
  "weight P kvs = sum_list (map (\<lambda>(k, v). if P k then v else 0) kvs)"

subsection \<open>A small library and an empty disk, for running the methods\<close>

text \<open>
  A stand-in for the library on which the methods can be run: the model of a fit is its
  topic count, and the fit with two topics scores \<open>0.9\<close>, every other one \<open>0.5\<close>.
\<close>

definition toy_library :: "(real, int, unit, unit, unit) library" where
  "toy_library =
     \<lparr>LdaModel = (\<lambda>n a b. n),
      get_coherence = (\<lambda>m. if m = 2 then 9 / 10 else 1 / 2),
      log_perplexity = (\<lambda>m. - 7),
      print_topics = (\<lambda>m. [(0, ''0.5*word'')]),
      LdaSeqModel = (\<lambda>ts n a m. case ts of
                        None \<Rightarrow> Inl (TypeError ''time_slice'')
                      | Some slices \<Rightarrow> Inr ()),
      print_topic_times = (\<lambda>q topic k. []),
      pandas_frame = (\<lambda>t periods. ()),
      prepare = (\<lambda>m. ()),
      str = (\<lambda>i. ''1'')\<rparr>"

definition empty_fs :: "(real, int, unit, unit, unit) filesystem" where
  "empty_fs = \<lparr>dirs = {}, files = Map.empty\<rparr>"


section \<open>Properties\<close>

subsection \<open>The time slices\<close>

lemma length_add_year: "length (add_year bs kv bc) = length bc"
proof -
  have "length (fold (\<lambda>(index, batch) bc.
             if fst kv \<in> set batch then bc[index := bc ! index + snd kv] else bc) ebs bc) = length bc"
    for ebs :: "(nat \<times> int list) list"
    by (induction ebs arbitrary: bc) (auto split: prod.splits)
  then show ?thesis by (simp add: add_year_def)
qed

text \<open>The inner loop adds the count to the entry of every batch that has the year.\<close>

lemma fold_enumerate_nth:
  "i < length bc \<Longrightarrow>
   fold (\<lambda>(index, batch) bc.
             if k \<in> set batch then bc[index := bc ! index + v] else bc) (enumerate n bs) bc ! i =
   bc ! i + (if n \<le> i \<and> i < n + length bs \<and> k \<in> set (bs ! (i - n)) then v else (0::nat))"
proof (induction bs arbitrary: n bc)
  case Nil
  then show ?case by simp
next
  case (Cons b bs)
  show ?case
  proof (cases "k \<in> set b")
    case True
    with Cons.prems Cons.IH[of "bc[n := bc ! n + v]" "Suc n"] show ?thesis
      by (auto simp: nth_list_update nth_Cons' Suc_diff_le)
  next
    case False
    with Cons.prems Cons.IH[of bc "Suc n"] show ?thesis
      by (auto simp: nth_Cons' Suc_diff_le)
  qed
qed

lemma add_year_nth:
  "i < length bc \<Longrightarrow> length bc = length bs \<Longrightarrow>
   add_year bs (k, v) bc ! i = bc ! i + (if k \<in> set (bs ! i) then v else 0)"
  by (simp add: add_year_def fold_enumerate_nth)

lemma fold_add_year_length: "length (fold (add_year bs) kvs bc) = length bc"
  by (induction kvs arbitrary: bc) (simp_all add: length_add_year)

lemma fold_add_year_nth:
  "i < length bc \<Longrightarrow> length bc = length bs \<Longrightarrow>
   fold (add_year bs) kvs bc ! i = bc ! i + weight (\<lambda>k. k \<in> set (bs ! i)) kvs"
proof (induction kvs arbitrary: bc)
  case Nil
  then show ?case by (simp add: weight_def)
next
  case (Cons kv kvs)
  obtain k v where kv: "kv = (k, v)" by (cases kv)
  from Cons.prems have "fold (add_year bs) kvs (add_year bs kv bc) ! i =
      add_year bs kv bc ! i + weight (\<lambda>k. k \<in> set (bs ! i)) kvs"
    by (intro Cons.IH) (simp_all add: length_add_year)
  with Cons.prems show ?case
    by (simp add: kv add_year_nth weight_def)
qed

text \<open>Counting the years first loses no document and invents none.\<close>

lemma weight_count_year:
  "weight P (count_year y kvs) = (if P y then 1 else 0) + weight P kvs"
  by (induction y kvs rule: count_year.induct) (auto simp: weight_def)

lemma weight_fold_count_year:
  "weight P (fold (\<lambda>item yc. count_year (fst item) yc) ds kvs) =
     length (filter (\<lambda>d. P (fst d)) ds) + weight P kvs"
  by (induction ds arbitrary: kvs) (auto simp: weight_count_year)

lemma weight_year_counts_of:
  "weight P (year_counts_of ds) = length (filter (\<lambda>d. P (fst d)) ds)"
proof -
  have "weight P [] = 0" by (simp add: weight_def)
  then show ?thesis by (simp add: year_counts_of_def weight_fold_count_year)
qed

lemma time_slicer_counts:
  "fst (time_slicer st year_batches) =
     map (\<lambda>batch. length (filter (\<lambda>item. fst item \<in> set batch) (dates st))) year_batches"
proof (rule nth_equalityI)
  show "length (fst (time_slicer st year_batches)) =
      length (map (\<lambda>batch. length (filter (\<lambda>item. fst item \<in> set batch) (dates st))) year_batches)"
    by (simp add: time_slicer_def Let_def fold_add_year_length)
next
  fix i assume "i < length (fst (time_slicer st year_batches))"
  then have i: "i < length year_batches"
    by (simp add: time_slicer_def Let_def fold_add_year_length)
  then show "fst (time_slicer st year_batches) ! i =
      map (\<lambda>batch. length (filter (\<lambda>item. fst item \<in> set batch) (dates st))) year_batches ! i"
    by (simp add: time_slicer_def Let_def fold_add_year_nth weight_year_counts_of nth_enumerate_eq)
qed

text \<open>
  C2. For every list of dates and every list of year batches, \<open>time_slicer\<close> returns one
  entry per batch, in the order of the batches, and the entry of a batch is the number
  of documents whose year is in that batch. The result is also stored in
  \<open>self.time_slice\<close>. A document whose year is in no batch adds to no entry: removing
  all such documents first leaves the result as it is. For the batches
  \<open>[[2000, 2001], [2002, 2003]]\<close> and the years 2000, 2000, 2002, 2005 the result is
  \<open>[2, 1]\<close>.
\<close>

theorem time_slicer_slice_vector:
  "fst (time_slicer st year_batches) =
     map (\<lambda>batch. length (filter (\<lambda>item. fst item \<in> set batch) (dates st))) year_batches
   \<and> length (fst (time_slicer st year_batches)) = length year_batches
   \<and> time_slice (snd (time_slicer st year_batches)) = Some (fst (time_slicer st year_batches))
   \<and> fst (time_slicer
            (st\<lparr>dates := filter (\<lambda>item. fst item \<in> set (concat year_batches)) (dates st)\<rparr>)
            year_batches)
       = fst (time_slicer st year_batches)
   \<and> fst (time_slicer (LDA_init [(2000, r1), (2000, r2), (2002, r3), (2005, r4)])
            [[2000, 2001], [2002, 2003]]) = [2, 1]"
proof (intro conjI)
  show "fst (time_slicer st year_batches) =
     map (\<lambda>batch. length (filter (\<lambda>item. fst item \<in> set batch) (dates st))) year_batches"
    by (rule time_slicer_counts)
  then show "length (fst (time_slicer st year_batches)) = length year_batches"
    by simp
  show "time_slice (snd (time_slicer st year_batches)) = Some (fst (time_slicer st year_batches))"
    by (simp add: time_slicer_def Let_def)
  have "filter (\<lambda>item. fst item \<in> set batch)
          (filter (\<lambda>item. fst item \<in> set (concat year_batches)) (dates st)) =
        filter (\<lambda>item. fst item \<in> set batch) (dates st)"
    if "batch \<in> set year_batches" for batch
    using that by (auto intro: filter_cong)
  then show "fst (time_slicer
            (st\<lparr>dates := filter (\<lambda>item. fst item \<in> set (concat year_batches)) (dates st)\<rparr>)
            year_batches)
       = fst (time_slicer st year_batches)"
    by (simp add: time_slicer_counts)
  show "fst (time_slicer (LDA_init [(2000, r1), (2000, r2), (2002, r3), (2005, r4)])
            [[2000, 2001], [2002, 2003]]) = [2, 1]"
    by (simp add: time_slicer_counts LDA_init_def)
qed

text \<open>
  C9. A year that is in two batches is counted into both: each of the two entries is at
  least the number of documents of that year. So with overlapping batches the entries
  can add up to more than there are documents: one document of the year 2000 and the
  batches \<open>[1999, 2000]\<close> and \<open>[2000, 2001]\<close> give the entries 1 and 1.
\<close>

theorem time_slicer_overlapping_batches:
  "i < length year_batches \<Longrightarrow> j < length year_batches \<Longrightarrow> i \<noteq> j \<Longrightarrow>
   y \<in> set (year_batches ! i) \<Longrightarrow> y \<in> set (year_batches ! j) \<Longrightarrow>
     length (filter (\<lambda>item. fst item = y) (dates st)) \<le> fst (time_slicer st year_batches) ! i
   \<and> length (filter (\<lambda>item. fst item = y) (dates st)) \<le> fst (time_slicer st year_batches) ! j
   \<and> fst (time_slicer (LDA_init [(2000, r)]) [[1999, 2000], [2000, 2001]]) = [1, 1]
   \<and> length [(2000 :: int, r)]
       < sum_list (fst (time_slicer (LDA_init [(2000, r)]) [[1999, 2000], [2000, 2001]]))"
proof -
  assume i: "i < length year_batches" and j: "j < length year_batches"
    and yi: "y \<in> set (year_batches ! i)" and yj: "y \<in> set (year_batches ! j)"
  have sub: "length (filter (\<lambda>item. fst item = y) ds)
      \<le> length (filter (\<lambda>item. fst item \<in> set batch) ds)"
    if "y \<in> set batch" for batch and ds :: "(int \<times> 'a) list"
    using that by (induction ds) auto
  have "length (filter (\<lambda>item. fst item = y) (dates st)) \<le> fst (time_slicer st year_batches) ! i"
    using i sub[OF yi] by (simp add: time_slicer_counts)
  moreover
  have "length (filter (\<lambda>item. fst item = y) (dates st)) \<le> fst (time_slicer st year_batches) ! j"
    using j sub[OF yj] by (simp add: time_slicer_counts)
  moreover
  have "fst (time_slicer (LDA_init [(2000, r)]) [[1999, 2000], [2000, 2001]]) = [1, 1]"
    by (simp add: time_slicer_counts LDA_init_def)
  moreover
  have "length [(2000 :: int, r)]
      < sum_list (fst (time_slicer (LDA_init [(2000, r)]) [[1999, 2000], [2000, 2001]]))"
    by (simp add: time_slicer_counts LDA_init_def)
  ultimately show ?thesis by blast
qed

theorem time_slicer_overlapping_batches_witness:
  "(0::nat) < length [[1999, 2000], [2000, 2001 :: int]]
   \<and> (1::nat) < length [[1999, 2000], [2000, 2001 :: int]]
   \<and> (0::nat) \<noteq> 1
   \<and> (2000::int) \<in> set ([[1999, 2000], [2000, 2001]] ! 0)
   \<and> (2000::int) \<in> set ([[1999, 2000], [2000, 2001]] ! 1)
   \<and> fst (time_slicer (LDA_init [(2000, ()), (2000, ()), (2001, ())] :: (unit, unit, unit) lda)
            [[1999, 2000], [2000, 2001]]) = [2, 3]
   \<and> length (filter (\<lambda>item. fst item = 2000) [(2000 :: int, ()), (2000, ()), (2001, ())]) = 2"
proof -
  have h: "(0::nat) < length [[1999, 2000], [2000, 2001 :: int]]"
    "(1::nat) < length [[1999, 2000], [2000, 2001 :: int]]"
    "(0::nat) \<noteq> 1"
    "(2000::int) \<in> set ([[1999, 2000], [2000, 2001]] ! 0)"
    "(2000::int) \<in> set ([[1999, 2000], [2000, 2001]] ! 1)"
    by simp_all
  have run: "fst (time_slicer (LDA_init [(2000, ()), (2000, ()), (2001, ())] :: (unit, unit, unit) lda)
            [[1999, 2000], [2000, 2001]]) = [2, 3]"
    by (simp add: time_slicer_def LDA_init_def year_counts_of_def add_year_def
        enumerate_eq_zip Let_def)
  from time_slicer_overlapping_batches[OF h,
      where st = "LDA_init [(2000, ()), (2000, ()), (2001, ())] :: (unit, unit, unit) lda"
        and r = "()"]
  show ?thesis using run by (simp add: LDA_init_def)
qed

subsection \<open>The grid search\<close>

text \<open>The three nested loops visit the cells of the grid in order.\<close>

lemma inner_loops_as_cells:
  "fold (\<lambda>a. fold (\<lambda>b. grid_cell lib n a b) betas) alphas st =
   fold (\<lambda>(n, a, b). grid_cell lib n a b)
     (concat (map (\<lambda>a. map (\<lambda>b. (n, a, b)) betas) alphas)) st"
  by (induction alphas arbitrary: st) (simp_all add: fold_map comp_def)

lemma loops_as_cells:
  "fold (\<lambda>n. fold (\<lambda>a. fold (\<lambda>b. grid_cell lib n a b) betas) alphas) ns st =
   fold (\<lambda>(n, a, b). grid_cell lib n a b) (cells ns alphas betas) st"
  unfolding cells_def
  by (induction ns arbitrary: st) (simp_all add: inner_loops_as_cells)

lemma scores_cells:
  "scores (fold (\<lambda>(n, a, b). grid_cell lib n a b) cs st) =
     map_option (\<lambda>entries. entries @ map (\<lambda>(n, a, b). trial_of lib n a b) cs) (scores st)"
proof (induction cs arbitrary: st)
  case Nil
  then show ?case by (simp add: option.map_ident)
next
  case (Cons c cs)
  obtain n a b where c: "c = (n, a, b)" by (cases c)
  have "scores (grid_cell lib n a b st) =
      map_option (\<lambda>entries. entries @ [trial_of lib n a b]) (scores st)"
    by (simp add: grid_cell_def get_coherence_score_def trial_of_def Let_def)
  then show ?case
    by (simp add: c Cons.IH option.map_comp comp_def)
qed

lemma trials_of_cells:
  "map (\<lambda>(n, a, b). trial_of lib n a b) (cells ns alphas betas) = spec_trials lib ns alphas betas"
  by (simp add: cells_def spec_trials_def map_concat comp_def)

lemma best_of_grid_cell:
  "best_of (grid_cell lib n a b st) = best_step lib (n, a, b) (best_of st)"
  by (simp add: grid_cell_def get_coherence_score_def best_of_def Let_def)

lemma best_of_cells:
  "best_of (fold (\<lambda>(n, a, b). grid_cell lib n a b) cs st) = fold (best_step lib) cs (best_of st)"
proof (induction cs arbitrary: st)
  case Nil
  then show ?case by simp
next
  case (Cons c cs)
  obtain n a b where c: "c = (n, a, b)" by (cases c)
  show ?case by (simp add: c Cons.IH best_of_grid_cell)
qed

lemma best_of_scores_upd [simp]: "best_of (st\<lparr>scores := x\<rparr>) = best_of st"
  by (simp add: best_of_def)

lemma scores_grid_search:
  "scores (fst (grid_search lib st fs ns alphas betas)) = Some (spec_trials lib ns alphas betas)"
  by (simp add: grid_search_def Let_def loops_as_cells scores_cells trials_of_cells)

lemma best_of_grid_search:
  "best_of (fst (grid_search lib st fs ns alphas betas)) =
     fold (best_step lib) (cells ns alphas betas) (best_of st)"
  by (simp add: grid_search_def Let_def loops_as_cells best_of_cells)

lemma best_step_cases:
  "best_step lib c (s, p, m) =
     (if coherence_of lib c > s
      then (coherence_of lib c, Some c, Some (case c of (n, a, b) \<Rightarrow> LdaModel lib n a b))
      else (s, p, m))"
  by (cases c) (simp add: coherence_of_def)

lemma best_fold_upper:
  "fold (best_step lib) cs (s, p, m) = (s', p', m') \<Longrightarrow>
     s \<le> s' \<and> (\<forall>c \<in> set cs. coherence_of lib c \<le> s')"
proof (induction cs arbitrary: s' p' m' rule: rev_induct)
  case Nil
  then show ?case by simp
next
  case (snoc c cs)
  obtain s1 p1 m1 where mid: "fold (best_step lib) cs (s, p, m) = (s1, p1, m1)"
    by (cases "fold (best_step lib) cs (s, p, m)")
  from snoc.IH[OF mid] have le: "s \<le> s1" and ub: "\<forall>c \<in> set cs. coherence_of lib c \<le> s1"
    by simp_all
  from snoc.prems mid have s': "s' = (if coherence_of lib c > s1 then coherence_of lib c else s1)"
    by (simp add: best_step_cases split: if_splits)
  from s' le have "s \<le> s'" by simp
  moreover from s' have "coherence_of lib c \<le> s'" by simp
  moreover from s' ub have "\<forall>d \<in> set cs. coherence_of lib d \<le> s'" by fastforce
  ultimately show ?case by simp
qed

lemma best_fold_first:
  "fold (best_step lib) cs (s, p, m) = (s', p', m') \<Longrightarrow>
     (s' = s \<and> p' = p \<and> m' = m) \<or>
     (\<exists>i < length cs. s < s' \<and> coherence_of lib (cs ! i) = s' \<and>
         (\<forall>j < i. coherence_of lib (cs ! j) < s') \<and>
         p' = Some (cs ! i) \<and>
         m' = Some (case cs ! i of (n, a, b) \<Rightarrow> LdaModel lib n a b))"
proof (induction cs arbitrary: s' p' m' rule: rev_induct)
  case Nil
  then show ?case by simp
next
  case (snoc c cs)
  obtain s1 p1 m1 where mid: "fold (best_step lib) cs (s, p, m) = (s1, p1, m1)"
    by (cases "fold (best_step lib) cs (s, p, m)")
  note IH = snoc.IH[OF mid]
  from best_fold_upper[OF mid] have le: "s \<le> s1"
    and ub: "\<forall>d \<in> set cs. coherence_of lib d \<le> s1"
    by simp_all
  show ?case
  proof (cases "coherence_of lib c > s1")
    case True
    with snoc.prems mid have res: "s' = coherence_of lib c" "p' = Some c"
      "m' = Some (case c of (n, a, b) \<Rightarrow> LdaModel lib n a b)"
      by (simp_all add: best_step_cases)
    have below: "\<forall>j < length cs. coherence_of lib (cs ! j) < s'"
    proof (intro allI impI)
      fix j assume "j < length cs"
      then have "coherence_of lib (cs ! j) \<le> s1" using ub by simp
      with True res show "coherence_of lib (cs ! j) < s'" by simp
    qed
    have "length cs < length (cs @ [c])" by simp
    moreover have "s < s'" using le True res by simp
    moreover have "coherence_of lib ((cs @ [c]) ! length cs) = s'" using res by simp
    moreover have "\<forall>j < length cs. coherence_of lib ((cs @ [c]) ! j) < s'"
      using below by (simp add: nth_append)
    moreover have "p' = Some ((cs @ [c]) ! length cs)" using res by simp
    moreover have "m' = Some (case (cs @ [c]) ! length cs of (n, a, b) \<Rightarrow> LdaModel lib n a b)"
      using res by simp
    ultimately show ?thesis by blast
  next
    case False
    with snoc.prems mid have res: "s' = s1" "p' = p1" "m' = m1"
      by (simp_all add: best_step_cases)
    from IH show ?thesis
    proof
      assume "s1 = s \<and> p1 = p \<and> m1 = m"
      with res show ?thesis by simp
    next
      assume "\<exists>i < length cs. s < s1 \<and> coherence_of lib (cs ! i) = s1 \<and>
         (\<forall>j < i. coherence_of lib (cs ! j) < s1) \<and>
         p1 = Some (cs ! i) \<and>
         m1 = Some (case cs ! i of (n, a, b) \<Rightarrow> LdaModel lib n a b)"
      then obtain i where i: "i < length cs" "s < s1" "coherence_of lib (cs ! i) = s1"
        "\<forall>j < i. coherence_of lib (cs ! j) < s1" "p1 = Some (cs ! i)"
        "m1 = Some (case cs ! i of (n, a, b) \<Rightarrow> LdaModel lib n a b)"
        by blast
      have "i < length (cs @ [c])" using i(1) by simp
      moreover have "s < s'" using i(2) res by simp
      moreover have "coherence_of lib ((cs @ [c]) ! i) = s'" using i(1,3) res by (simp add: nth_append)
      moreover have "\<forall>j < i. coherence_of lib ((cs @ [c]) ! j) < s'"
        using i(1,4) res by (simp add: nth_append)
      moreover have "p' = Some ((cs @ [c]) ! i)" using i(1,5) res by (simp add: nth_append)
      moreover have "m' = Some (case (cs @ [c]) ! i of (n, a, b) \<Rightarrow> LdaModel lib n a b)"
        using i(1,6) res by (simp add: nth_append)
      ultimately show ?thesis by blast
    qed
  qed
qed




lemma cells_empty_iff: "cells ns alphas betas = [] \<longleftrightarrow> ns = [] \<or> alphas = [] \<or> betas = []"
  by (auto simp: cells_def)

lemma length_cells: "length (cells ns alphas betas) = length ns * length alphas * length betas"
proof -
  have inner: "length (concat (map (\<lambda>a. map (\<lambda>b. (n, a, b)) betas) alphas)) =
      length alphas * length betas" for n :: int
    by (induction alphas) (simp_all add: length_concat)
  show ?thesis
    unfolding cells_def
    by (induction ns) (simp_all add: inner algebra_simps)
qed

lemma files_grid_search:
  "files (snd (grid_search lib st fs ns alphas betas)) [''Topics_CSVs'', ''scores_from_search.csv'']
     = Some (ScoresCsv (spec_trials lib ns alphas betas))"
  using scores_grid_search[of lib st fs ns alphas betas]
  by (simp add: grid_search_def Let_def write_file_def)



lemmas run_simps = grid_search_def grid_cell_def get_coherence_score_def toy_library_def
  LDA_init_def empty_fs_def ensure_dir_def path_exists_def makedirs_def write_file_def Let_def




text \<open>
  C3. \<open>grid_search\<close> leaves in \<open>self.scores\<close> exactly one trial record per
  combination, with the topic counts as the outer loop, the alphas in the middle and the
  betas innermost; the record of a combination holds its parameters, the coherence of
  its fit and the perplexity of the fitted model. There are as many records as the
  product of the three lengths. For the topic counts \<open>[2, 3]\<close>, the alphas \<open>[0.1]\<close>
  and the betas \<open>[0.1]\<close> the records are those of \<open>(2, 0.1, 0.1)\<close> and
  \<open>(3, 0.1, 0.1)\<close>, in this order.
\<close>

theorem grid_search_trial_order:
  "scores (fst (grid_search lib st fs ns alphas betas)) = Some (spec_trials lib ns alphas betas)
   \<and> spec_trials lib ns alphas betas =
       concat (map (\<lambda>n. concat (map (\<lambda>a. map (\<lambda>b.
         \<lparr>n_topics = n, alpha = a, beta = b,
          coherence_score = fst (get_coherence_score lib n a b),
          perplexity_score = log_perplexity lib (snd (get_coherence_score lib n a b))\<rparr>)
         betas) alphas)) ns)
   \<and> length (spec_trials lib ns alphas betas) = length ns * length alphas * length betas
   \<and> map (\<lambda>t. (n_topics t, alpha t, beta t)) (spec_trials rlib [2, 3] [0.1 :: real] [0.1])
       = [(2, 0.1, 0.1), (3, 0.1, 0.1)]"
proof (intro conjI)
  show "scores (fst (grid_search lib st fs ns alphas betas)) = Some (spec_trials lib ns alphas betas)"
    by (rule scores_grid_search)
  show "spec_trials lib ns alphas betas =
       concat (map (\<lambda>n. concat (map (\<lambda>a. map (\<lambda>b.
         \<lparr>n_topics = n, alpha = a, beta = b,
          coherence_score = fst (get_coherence_score lib n a b),
          perplexity_score = log_perplexity lib (snd (get_coherence_score lib n a b))\<rparr>)
         betas) alphas)) ns)"
    by (simp add: spec_trials_def trial_of_def get_coherence_score_def Let_def)
  have "length (spec_trials lib ns alphas betas) = length (cells ns alphas betas)"
    by (simp flip: trials_of_cells)
  then show "length (spec_trials lib ns alphas betas) = length ns * length alphas * length betas"
    by (simp add: length_cells)
  show "map (\<lambda>t. (n_topics t, alpha t, beta t)) (spec_trials rlib [2, 3] [0.1 :: real] [0.1])
       = [(2, 0.1, 0.1), (3, 0.1, 0.1)]"
    by (simp add: spec_trials_def trial_of_def)
qed

text \<open>
  C4. When one of the three axes is empty, \<open>grid_search\<close> runs no trial: the trial log
  is empty and the best score, parameters and model are what they were before the call.
  On a new object they are the initial ones: the score \<open>-1\<close>, no parameters, no model.
\<close>

theorem grid_search_empty_axis:
  fixes st :: "('r, 'p, 'm) lda" and ds :: "(int \<times> 'r) list"
    and lib :: "('p, 'm, 'q, 'v, 'f) library"
  assumes "ns = [] \<or> alphas = [] \<or> betas = []"
  shows "scores (fst (grid_search lib st fs ns alphas betas)) = Some []
   \<and> best_score (fst (grid_search lib st fs ns alphas betas)) = best_score st
   \<and> best_params (fst (grid_search lib st fs ns alphas betas)) = best_params st
   \<and> best_model (fst (grid_search lib st fs ns alphas betas)) = best_model st
   \<and> best_score (fst (grid_search lib (LDA_init ds) fs ns alphas betas)) = - 1
   \<and> best_params (fst (grid_search lib (LDA_init ds) fs ns alphas betas)) = None
   \<and> best_model (fst (grid_search lib (LDA_init ds) fs ns alphas betas)) = None"
proof -
  from assms have empty: "cells ns alphas betas = []"
    by (simp add: cells_empty_iff)
  have "spec_trials lib ns alphas betas = []"
    using empty by (simp flip: trials_of_cells)
  then have entries: "scores (fst (grid_search lib st fs ns alphas betas)) = Some []"
    by (simp add: scores_grid_search)
  have keep: "best_of (fst (grid_search lib st fs ns alphas betas)) = best_of st"
    by (simp add: best_of_grid_search empty)
  have fresh: "best_of (fst (grid_search lib (LDA_init ds) fs ns alphas betas)) =
      best_of (LDA_init ds :: ('r, 'p, 'm) lda)"
    by (simp add: best_of_grid_search empty)
  from keep fresh entries show ?thesis
    by (simp add: best_of_def LDA_init_def)
qed

theorem grid_search_empty_axis_witness:
  "(([] :: int list) = [] \<or> [0.1 :: real] = [] \<or> [0.2 :: real] = [])
   \<and> scores (fst (grid_search toy_library (LDA_init [] :: (unit, real, int) lda) empty_fs
        [] [0.1] [0.2])) = Some []
   \<and> best_score (fst (grid_search toy_library (LDA_init [] :: (unit, real, int) lda) empty_fs
        [] [0.1] [0.2])) = - 1
   \<and> best_params (fst (grid_search toy_library (LDA_init [] :: (unit, real, int) lda) empty_fs
        [] [0.1] [0.2])) = None
   \<and> best_model (fst (grid_search toy_library (LDA_init [] :: (unit, real, int) lda) empty_fs
        [] [0.1] [0.2])) = None"
proof -
  have axis: "([] :: int list) = [] \<or> [0.1 :: real] = [] \<or> [0.2 :: real] = []"
    by simp
  from grid_search_empty_axis[OF axis, of toy_library "LDA_init [] :: (unit, real, int) lda"
      empty_fs "[]"]
  show ?thesis using axis by blast
qed

text \<open>
  C10. A call of \<open>grid_search\<close> replaces the trial log by the records of this call
  alone, and writes that log to \<open>scores_from_search.csv\<close>, but it does not reset the
  best trial. When every record of the call scores strictly below the best score held
  before it, the best score, parameters and model stay as they were, and no record of
  the new log, or of the file, has the best score.
\<close>

theorem second_grid_search_keeps_stale_best:
  fixes st :: "('r, 'p, 'm) lda" and lib :: "('p, 'm, 'q, 'v, 'f) library"
  assumes "grid_search lib st fs ns alphas betas = (st', fs')"
    and "scores st' = Some entries"
    and "\<forall>t \<in> set entries. coherence_score t < best_score st"
  shows "entries = spec_trials lib ns alphas betas
   \<and> files fs' [''Topics_CSVs'', ''scores_from_search.csv''] = Some (ScoresCsv entries)
   \<and> best_score st' = best_score st
   \<and> best_params st' = best_params st
   \<and> best_model st' = best_model st
   \<and> (\<forall>t \<in> set entries. coherence_score t \<noteq> best_score st')"
proof -
  from assms(1,2) scores_grid_search[of lib st fs ns alphas betas]
  have entries: "entries = spec_trials lib ns alphas betas" by simp
  from assms(1) files_grid_search[of lib st fs ns alphas betas] entries
  have written: "files fs' [''Topics_CSVs'', ''scores_from_search.csv''] = Some (ScoresCsv entries)"
    by simp
  obtain s p m where start: "best_of st = (s, p, m)" by (cases "best_of st")
  obtain s1 p1 m1 where
    run: "fold (best_step lib) (cells ns alphas betas) (s, p, m) = (s1, p1, m1)"
    by (cases "fold (best_step lib) (cells ns alphas betas) (s, p, m)")
  have s: "s = best_score st" using start by (simp add: best_of_def)
  have below: "coherence_of lib c < s" if "c \<in> set (cells ns alphas betas)" for c
  proof -
    obtain n a b where c: "c = (n, a, b)" by (cases c)
    from that have "trial_of lib n a b \<in> set entries"
      unfolding entries trials_of_cells[symmetric] c by force
    with assms(3) show ?thesis
      by (auto simp: s c coherence_of_def trial_of_def)
  qed
  from best_fold_first[OF run] have "s1 = s \<and> p1 = p \<and> m1 = m"
  proof
    assume "s1 = s \<and> p1 = p \<and> m1 = m"
    then show ?thesis .
  next
    assume "\<exists>i<length (cells ns alphas betas). s < s1 \<and>
        coherence_of lib (cells ns alphas betas ! i) = s1 \<and>
        (\<forall>j<i. coherence_of lib (cells ns alphas betas ! j) < s1) \<and>
        p1 = Some (cells ns alphas betas ! i) \<and>
        m1 = Some (case cells ns alphas betas ! i of (n, a, b) \<Rightarrow> LdaModel lib n a b)"
    then obtain i where i: "i < length (cells ns alphas betas)" "s < s1"
      "coherence_of lib (cells ns alphas betas ! i) = s1" by blast
    from below[of "cells ns alphas betas ! i"] i(1,3) have "s1 < s" by simp
    with i(2) show ?thesis by simp
  qed
  with run start best_of_grid_search[of lib st fs ns alphas betas] assms(1)
  have keep: "best_of st' = best_of st" by simp
  then have "best_score st' = best_score st" "best_params st' = best_params st"
    "best_model st' = best_model st"
    by (simp_all add: best_of_def)
  moreover from this(1) assms(3) have "\<forall>t \<in> set entries. coherence_score t \<noteq> best_score st'"
    by fastforce
  ultimately show ?thesis using entries written by blast
qed

theorem second_grid_search_keeps_stale_best_witness:
  "scores (fst (grid_search toy_library
      (fst (grid_search toy_library (LDA_init [] :: (unit, real, int) lda) empty_fs [2] [0.1] [0.2]))
      (snd (grid_search toy_library (LDA_init [] :: (unit, real, int) lda) empty_fs [2] [0.1] [0.2]))
      [3, 4] [0.1] [0.2]))
     = Some [\<lparr>n_topics = 3, alpha = 0.1, beta = 0.2, coherence_score = 1 / 2,
               perplexity_score = - 7\<rparr>,
             \<lparr>n_topics = 4, alpha = 0.1, beta = 0.2, coherence_score = 1 / 2,
               perplexity_score = - 7\<rparr>]
   \<and> best_score (fst (grid_search toy_library (LDA_init [] :: (unit, real, int) lda) empty_fs
        [2] [0.1] [0.2])) = 9 / 10
   \<and> best_score (fst (grid_search toy_library
      (fst (grid_search toy_library (LDA_init [] :: (unit, real, int) lda) empty_fs [2] [0.1] [0.2]))
      (snd (grid_search toy_library (LDA_init [] :: (unit, real, int) lda) empty_fs [2] [0.1] [0.2]))
      [3, 4] [0.1] [0.2])) = 9 / 10
   \<and> best_params (fst (grid_search toy_library
      (fst (grid_search toy_library (LDA_init [] :: (unit, real, int) lda) empty_fs [2] [0.1] [0.2]))
      (snd (grid_search toy_library (LDA_init [] :: (unit, real, int) lda) empty_fs [2] [0.1] [0.2]))
      [3, 4] [0.1] [0.2])) = Some (2, 0.1, 0.2)"
proof -
  let ?first = "grid_search toy_library (LDA_init [] :: (unit, real, int) lda) empty_fs
      [2] [0.1] [0.2]"
  let ?second = "grid_search toy_library (fst ?first) (snd ?first) [3, 4] [0.1] [0.2]"
  let ?entries = "[\<lparr>n_topics = 3, alpha = 0.1 :: real, beta = 0.2 :: real,
      coherence_score = 1 / 2, perplexity_score = - 7\<rparr>,
    \<lparr>n_topics = 4, alpha = 0.1, beta = 0.2, coherence_score = 1 / 2,
      perplexity_score = - 7\<rparr>]"
  have first_best: "best_score (fst ?first) = 9 / 10"
    "best_params (fst ?first) = Some (2, 0.1, 0.2)"
    by (simp_all add: run_simps)
  have step: "?second = (fst ?second, snd ?second)"
    by simp
  have entries: "scores (fst ?second) = Some ?entries"
    by (simp add: run_simps)
  have below: "\<forall>t \<in> set ?entries. coherence_score t < best_score (fst ?first)"
    by (simp add: run_simps)
  from second_grid_search_keeps_stale_best[OF step entries below]
  have "best_score (fst ?second) = best_score (fst ?first)"
    "best_params (fst ?second) = best_params (fst ?first)"
    by blast+
  with first_best entries show ?thesis by simp
qed

subsection \<open>Building the best model\<close>

lemma path_exists_ensure_dir: "path_exists (ensure_dir [d] fs) [d]"
  by (simp add: ensure_dir_def makedirs_def path_exists_def)

lemma path_exists_write_file: "path_exists fs p \<Longrightarrow> path_exists (write_file q a fs) p"
  by (simp add: write_file_def path_exists_def)

lemma path_exists_ensure_dir_other: "path_exists fs p \<Longrightarrow> path_exists (ensure_dir d fs) p"
  by (auto simp: ensure_dir_def makedirs_def path_exists_def)

lemma ensure_dir_existing: "path_exists fs d \<Longrightarrow> ensure_dir d fs = fs"
  by (simp add: ensure_dir_def)

lemma write_file_twice: "write_file p a (write_file p a fs) = write_file p a fs"
  by (simp add: write_file_def)

text \<open>
  C6. \<open>build_best_model\<close>, called while \<open>best_params\<close> is unset, raises the exception
  with the message that no parameters were found and that the grid search has to be run
  first; it returns no model and leaves the object and the disk as they were. Called
  while \<open>best_params\<close> is \<open>(n, alpha, beta)\<close>, it returns the model fitted anew with
  exactly these three parameters, saves it, and writes its topics to
  \<open>best_topics.csv\<close>.
\<close>

theorem build_best_model_guard:
  fixes st :: "('r, 'p, 'm) lda" and lib :: "('p, 'm, 'q, 'v, 'f) library"
  shows "(best_params st = None \<longrightarrow>
            build_best_model lib st fs =
              (Inl (Exception
                 ''No parameters found for the best model. Make sure you have run the grid search already.''),
               st, fs))
   \<and> (best_params st = Some (n, a, b) \<longrightarrow>
            fst (build_best_model lib st fs) = Inr (snd (get_coherence_score lib n a b))
          \<and> snd (get_coherence_score lib n a b) = LdaModel lib n a b
          \<and> fst (snd (build_best_model lib st fs)) = st
          \<and> files (snd (snd (build_best_model lib st fs)))
               [''LDAModels_Gensim'', ''Grid_Best_MSc_LDA.gensim'']
              = Some (ModelFile (LdaModel lib n a b))
          \<and> files (snd (snd (build_best_model lib st fs))) [''Topics_CSVs'', ''best_topics.csv'']
              = Some (TopicsCsv [''Topic N'', ''Keywords''] (print_topics lib (LdaModel lib n a b))))"
  by (simp add: build_best_model_def get_coherence_score_def Let_def write_file_def
      ensure_dir_def makedirs_def)

theorem build_best_model_guard_witness:
  "best_params (LDA_init [] :: (unit, real, int) lda) = None
   \<and> build_best_model toy_library (LDA_init [] :: (unit, real, int) lda) empty_fs =
       (Inl (Exception
          ''No parameters found for the best model. Make sure you have run the grid search already.''),
        LDA_init [], empty_fs)
   \<and> best_params (fst (grid_search toy_library (LDA_init [] :: (unit, real, int) lda) empty_fs
        [2, 3] [0.1] [0.2])) = Some (2, 0.1, 0.2)
   \<and> fst (build_best_model toy_library
        (fst (grid_search toy_library (LDA_init [] :: (unit, real, int) lda) empty_fs
           [2, 3] [0.1] [0.2])) empty_fs) = Inr 2"
proof -
  let ?init = "LDA_init [] :: (unit, real, int) lda"
  let ?st = "fst (grid_search toy_library ?init empty_fs [2, 3] [0.1] [0.2])"
  have unset: "best_params ?init = None"
    by (simp add: LDA_init_def)
  have set: "best_params ?st = Some (2, 0.1, 0.2)"
    by (simp add: run_simps)
  have model: "snd (get_coherence_score toy_library 2 0.1 0.2) = 2"
    by (simp add: run_simps)
  from build_best_model_guard[of ?init toy_library empty_fs 2 "0.1" "0.2"] unset
  have "build_best_model toy_library ?init empty_fs =
       (Inl (Exception
          ''No parameters found for the best model. Make sure you have run the grid search already.''),
        ?init, empty_fs)"
    by blast
  moreover from build_best_model_guard[of ?st toy_library empty_fs 2 "0.1" "0.2"] set model
  have "fst (build_best_model toy_library ?st empty_fs) = Inr 2"
    by simp
  ultimately show ?thesis using unset set by blast
qed

text \<open>
  C7. Two calls of \<open>build_best_model\<close> in a row, the second on the object and the disk
  the first one left: the second call returns what the first returned and leaves the
  disk as the first left it, so \<open>best_topics.csv\<close> holds the same table both times;
  with \<open>best_params\<close> set, this table is the header row and the topics of the model
  fitted with these parameters. The library is a function here: the same parameters
  give the same model, which is what the fixed \<open>random_state\<close> is for.
\<close>

theorem build_best_model_idempotent_export:
  fixes st :: "('r, 'p, 'm) lda" and lib :: "('p, 'm, 'q, 'v, 'f) library"
  assumes "build_best_model lib st fs = (r1, st1, fs1)"
    and "build_best_model lib st1 fs1 = (r2, st2, fs2)"
  shows "files fs2 [''Topics_CSVs'', ''best_topics.csv'']
           = files fs1 [''Topics_CSVs'', ''best_topics.csv'']
   \<and> fs2 = fs1 \<and> r2 = r1 \<and> st2 = st1 \<and> st1 = st
   \<and> (best_params st = Some (n, a, b) \<longrightarrow>
         files fs2 [''Topics_CSVs'', ''best_topics.csv'']
           = Some (TopicsCsv [''Topic N'', ''Keywords''] (print_topics lib (LdaModel lib n a b))))"
proof (cases "best_params st")
  case None
  with assms show ?thesis
    by (simp add: build_best_model_def)
next
  case (Some c)
  obtain n' a' b' where c: "c = (n', a', b')" by (cases c)
  let ?model = "LdaModel lib n' a' b'"
  let ?mp = "[''LDAModels_Gensim'', ''Grid_Best_MSc_LDA.gensim'']"
  let ?tp = "[''Topics_CSVs'', ''best_topics.csv'']"
  let ?tc = "TopicsCsv [''Topic N'', ''Keywords''] (print_topics lib ?model)"
  define g1 where "g1 = write_file ?mp (ModelFile ?model) (ensure_dir [''LDAModels_Gensim''] fs)"
  define g2 where "g2 = write_file ?tp ?tc (ensure_dir [''Topics_CSVs''] g1)"
  have first: "build_best_model lib st fs = (Inr ?model, st, g2)"
    by (simp add: build_best_model_def Some c get_coherence_score_def Let_def g1_def g2_def)
  with assms(1) have r1: "r1 = Inr ?model" "st1 = st" "fs1 = g2" by simp_all
  have d1: "path_exists g2 [''LDAModels_Gensim'']"
    unfolding g2_def g1_def
    by (intro path_exists_write_file path_exists_ensure_dir_other path_exists_ensure_dir)
  have e1: "ensure_dir [''LDAModels_Gensim''] g2 = g2"
    using d1 by (rule ensure_dir_existing)
  have d2: "path_exists (write_file ?mp (ModelFile ?model) g2) [''Topics_CSVs'']"
    unfolding g2_def
    by (intro path_exists_write_file path_exists_ensure_dir)
  have w1: "write_file ?mp (ModelFile ?model) g2 = g2"
  proof -
    have "files g2 ?mp = Some (ModelFile ?model)"
      by (simp add: g2_def g1_def write_file_def ensure_dir_def makedirs_def)
    then show ?thesis
      by (simp add: write_file_def fun_upd_idem)
  qed
  have e2: "ensure_dir [''Topics_CSVs''] g2 = g2"
    using d2 unfolding w1 by (rule ensure_dir_existing)
  have w2: "write_file ?tp ?tc g2 = g2"
    unfolding g2_def by (rule write_file_twice)
  have second: "build_best_model lib st g2 = (Inr ?model, st, g2)"
    by (simp add: build_best_model_def Some c get_coherence_score_def Let_def e1 w1 e2 w2)
  with assms(2) r1 have r2: "r2 = Inr ?model" "st2 = st" "fs2 = g2" by simp_all
  have content: "files g2 ?tp = Some ?tc"
    by (simp add: g2_def write_file_def)
  from r1 r2 content Some c show ?thesis by simp
qed

theorem build_best_model_idempotent_export_witness:
  "fst (build_best_model toy_library
      (fst (grid_search toy_library (LDA_init [] :: (unit, real, int) lda) empty_fs
         [2, 3] [0.1] [0.2])) empty_fs) = Inr 2
   \<and> files (snd (snd (build_best_model toy_library
      (fst (grid_search toy_library (LDA_init [] :: (unit, real, int) lda) empty_fs
         [2, 3] [0.1] [0.2])) empty_fs))) [''Topics_CSVs'', ''best_topics.csv'']
       = Some (TopicsCsv [''Topic N'', ''Keywords''] [(0, ''0.5*word'')])
   \<and> snd (snd (build_best_model toy_library
      (fst (snd (build_best_model toy_library
         (fst (grid_search toy_library (LDA_init [] :: (unit, real, int) lda) empty_fs
            [2, 3] [0.1] [0.2])) empty_fs)))
      (snd (snd (build_best_model toy_library
         (fst (grid_search toy_library (LDA_init [] :: (unit, real, int) lda) empty_fs
            [2, 3] [0.1] [0.2])) empty_fs)))))
     = snd (snd (build_best_model toy_library
         (fst (grid_search toy_library (LDA_init [] :: (unit, real, int) lda) empty_fs
            [2, 3] [0.1] [0.2])) empty_fs))"
proof -
  let ?st = "fst (grid_search toy_library (LDA_init [] :: (unit, real, int) lda) empty_fs
      [2, 3] [0.1] [0.2])"
  let ?first = "build_best_model toy_library ?st empty_fs"
  let ?second = "build_best_model toy_library (fst (snd ?first)) (snd (snd ?first))"
  have one: "?first = (fst ?first, fst (snd ?first), snd (snd ?first))"
    by simp
  have two: "?second = (fst ?second, fst (snd ?second), snd (snd ?second))"
    by simp
  have returned: "fst ?first = Inr 2"
    by (simp add: run_simps build_best_model_def)
  have content: "files (snd (snd ?first)) [''Topics_CSVs'', ''best_topics.csv'']
      = Some (TopicsCsv [''Topic N'', ''Keywords''] [(0, ''0.5*word'')])"
    by (simp add: run_simps build_best_model_def)
  from build_best_model_idempotent_export[OF one two]
  have "snd (snd ?second) = snd (snd ?first)"
    by blast
  with returned content show ?thesis by blast
qed

subsection \<open>Visualising\<close>

lemma simple_model_cells:
  "simple_model (fold (\<lambda>(n, a, b). grid_cell lib n a b) cs st) = simple_model st"
proof (induction cs arbitrary: st)
  case Nil
  then show ?case by simp
next
  case (Cons c cs)
  obtain n a b where c: "c = (n, a, b)" by (cases c)
  have "simple_model (grid_cell lib n a b st) = simple_model st"
    by (simp add: grid_cell_def get_coherence_score_def Let_def)
  then show ?case by (simp add: c Cons.IH)
qed

text \<open>
  C8. \<open>viz\<close> raises \<open>ValueError\<close> for every model type other than \<open>best\<close> and
  \<open>simple\<close>; it raises the exception "No best model found" for \<open>best\<close> while
  \<open>best_model\<close> is unset, and "No simple model found" for \<open>simple\<close> while
  \<open>simple_model\<close> is unset. In all three cases the object and the disk stay as they
  were: no HTML file is written. Both models are unset on a new object; \<open>simple_fit\<close>
  does not set the best model and \<open>grid_search\<close> does not set the simple model.
\<close>

theorem viz_errors:
  fixes st :: "('r, 'p, 'm) lda" and lib :: "('p, 'm, 'q, 'v, 'f) library"
    and ds :: "(int \<times> 'r) list"
  shows "(model_type \<noteq> ''best'' \<and> model_type \<noteq> ''simple'' \<longrightarrow>
            viz lib st fs model_type =
              (Inl (ValueError
                 ''Model type not valid. Please select either \"best\" or \"simple\".''),
               st, fs))
   \<and> (best_model st = None \<longrightarrow>
            viz lib st fs ''best'' =
              (Inl (Exception ''No best model found. Run grid_search first.''), st, fs))
   \<and> (simple_model st = None \<longrightarrow>
            viz lib st fs ''simple'' =
              (Inl (Exception ''No simple model found. Run simple_fit() first.''), st, fs))
   \<and> best_model (LDA_init ds :: ('r, 'p, 'm) lda) = None
   \<and> simple_model (LDA_init ds :: ('r, 'p, 'm) lda) = None
   \<and> best_model (fst (snd (simple_fit lib st fs n a b))) = best_model st
   \<and> simple_model (fst (grid_search lib st fs ns alphas betas)) = simple_model st"
proof -
  have "simple_model (fst (grid_search lib st fs ns alphas betas)) = simple_model st"
    by (simp add: grid_search_def Let_def loops_as_cells simple_model_cells)
  then show ?thesis
    by (simp add: viz_def LDA_init_def simple_fit_def Let_def)
qed

theorem viz_errors_witness:
  "''worst'' \<noteq> ''best'' \<and> ''worst'' \<noteq> ''simple''
   \<and> viz toy_library (LDA_init [] :: (unit, real, int) lda) empty_fs ''worst'' =
       (Inl (ValueError ''Model type not valid. Please select either \"best\" or \"simple\".''),
        LDA_init [], empty_fs)
   \<and> viz toy_library (LDA_init [] :: (unit, real, int) lda) empty_fs ''best'' =
       (Inl (Exception ''No best model found. Run grid_search first.''), LDA_init [], empty_fs)
   \<and> viz toy_library (LDA_init [] :: (unit, real, int) lda) empty_fs ''simple'' =
       (Inl (Exception ''No simple model found. Run simple_fit() first.''),
        LDA_init [], empty_fs)"
proof -
  let ?init = "LDA_init [] :: (unit, real, int) lda"
  have other: "''worst'' \<noteq> ''best'' \<and> ''worst'' \<noteq> ''simple''"
    by simp
  have unset: "best_model ?init = None" "simple_model ?init = None"
    by (simp_all add: LDA_init_def)
  from viz_errors[of "''worst''" toy_library ?init empty_fs "[]" 2 "0.1" "0.2" "[]" "[]" "[]"]
    other unset
  show ?thesis by blast
qed

subsection \<open>The dynamic model\<close>

text \<open>
  C5. \<open>DTM\<close> on an object on which no grid search has run, with or without the time
  slices prepared: the method stops on evaluating \<open>self.best_params[0]\<close> with Python's
  \<open>TypeError\<close> for subscripting \<open>None\<close>, and the object and the disk stay as they
  were. It is not the exception with a message naming the missing step that
  \<open>build_best_model\<close> raises on the same object.
\<close>

theorem DTM_before_grid_search:
  fixes lib :: "('p, 'm, 'q, 'v, 'f) library" and ds :: "(int \<times> 'r) list"
  shows "DTM lib (LDA_init ds :: ('r, 'p, 'm) lda) fs year_batches =
       (Inl (TypeError ''NoneType object is not subscriptable''), LDA_init ds, fs)
   \<and> DTM lib (snd (time_slicer (LDA_init ds :: ('r, 'p, 'm) lda) year_batches)) fs year_batches =
       (Inl (TypeError ''NoneType object is not subscriptable''),
        snd (time_slicer (LDA_init ds) year_batches), fs)
   \<and> fst (build_best_model lib (LDA_init ds :: ('r, 'p, 'm) lda) fs) =
       Inl (Exception
         ''No parameters found for the best model. Make sure you have run the grid search already.'')"
  by (simp add: DTM_def LDA_init_def time_slicer_def Let_def build_best_model_def)

end
